theory Spec2Isabelle
  imports Complex_Main
begin

section \<open>Numerical conventions\<close>

text \<open>
  The Python sources work on numpy arrays of IEEE doubles.  Here a vector is a list of
  reals and a matrix is the list of its rows.  Rounding, overflow, \<open>inf\<close> and \<open>nan\<close> are
  not part of this model: every statement below is about the control flow and the data
  flow of the code, and holds for whatever the arithmetic yields.  Array shapes are taken
  to be consistent (numpy raises on a mismatch; \<open>zip\<close> truncates).
\<close>

type_synonym vec = "real list"
type_synonym mat = "real list list"

definition dot :: "vec \<Rightarrow> vec \<Rightarrow> real" where
  "dot u v = sum_list (map2 (*) u v)"

definition matvec :: "mat \<Rightarrow> vec \<Rightarrow> vec" where
  "matvec A v = map (\<lambda>row. dot row v) A"

definition mat_mul :: "mat \<Rightarrow> mat \<Rightarrow> mat" where
  "mat_mul A B = map (\<lambda>row. map (\<lambda>col. dot row col) (transpose B)) A"

definition vadd :: "vec \<Rightarrow> vec \<Rightarrow> vec" where
  "vadd u v = map2 (+) u v"

definition vsub :: "vec \<Rightarrow> vec \<Rightarrow> vec" where
  "vsub u v = map2 (-) u v"

definition vmul :: "vec \<Rightarrow> vec \<Rightarrow> vec" where
  "vmul u v = map2 (*) u v"

definition vdiv :: "vec \<Rightarrow> vec \<Rightarrow> vec" where
  "vdiv u v = map2 (/) u v"

definition vneg :: "vec \<Rightarrow> vec" where
  "vneg u = map uminus u"

definition vscale :: "real \<Rightarrow> vec \<Rightarrow> vec" where
  "vscale c u = map ((*) c) u"

definition linalg_norm :: "vec \<Rightarrow> real" where
  "linalg_norm u = sqrt (sum_list (map (\<lambda>a. a * a) u))"

definition outer :: "vec \<Rightarrow> vec \<Rightarrow> mat" where
  "outer u v = map (\<lambda>a. map (\<lambda>b. a * b) v) u"

definition mat_div :: "mat \<Rightarrow> mat \<Rightarrow> mat" where
  "mat_div A B = map2 vdiv A B"

definition mat_sub :: "mat \<Rightarrow> mat \<Rightarrow> mat" where
  "mat_sub A B = map2 vsub A B"

definition diag_mat :: "vec \<Rightarrow> mat" where
  "diag_mat d = map (\<lambda>i. map (\<lambda>j. if i = j then d ! i else 0) [0..<length d]) [0..<length d]"

definition eye :: "nat \<Rightarrow> mat" where
  "eye n = diag_mat (replicate n 1)"

definition columns :: "mat \<Rightarrow> nat list \<Rightarrow> mat" where
  "columns A ind = map (\<lambda>row. map (\<lambda>i. row ! i) ind) A"

section \<open>The PES wrapper (peswrapper.py)\<close>

datatype error =
    RuntimeError string
  | ValueError string
  | TypeError string
  | AttributeError string

text \<open>The values kept in the dictionaries \<open>last\<close> and \<open>lastlast\<close>.\<close>

datatype val = NoneV | Num real | Vec vec

type_synonym evalrec = "string \<rightharpoonup> val"

text \<open>
  \<open>BasePES.__init__\<close>: \<open>dict(x=None, f=None, g=None)\<close>; \<open>CartPES.__init__\<close> adds
  \<open>gfree=None, h=None\<close> to \<open>last\<close>.
\<close>

definition empty_rec :: evalrec where
  "empty_rec = [''x'' \<mapsto> NoneV, ''f'' \<mapsto> NoneV, ''g'' \<mapsto> NoneV]"

text \<open>
  The attributes of a \<open>CartPES\<close> object.  \<open>positions\<close> is \<open>atoms.positions.ravel()\<close>;
  \<open>H_mat\<close> is the attribute \<open>_H\<close> behind the property \<open>H\<close>.
\<close>

record pes =
  positions :: vec
  last_rec :: evalrec
  lastlast :: evalrec
  neval :: nat
  H_mat :: "mat option"
  Hred :: "mat option"
  lams :: "vec option"
  vecs :: "mat option"

text \<open>
  What the wrapper calls outside these two files: the calculator behind \<open>atoms\<close>, the
  \<open>Constraints\<close> object, \<open>scipy.linalg.eigh\<close> and \<open>sella.hessian_update.update_H\<close>
  (called with vectors in \<open>update_H\<close> and with matrices in \<open>diag\<close>).
\<close>

record env =
  get_forces :: "vec \<Rightarrow> vec"
  get_potential_energy :: "vec \<Rightarrow> real"
  cons_Ufree :: "vec \<Rightarrow> mat"
  cons_Ucons :: "vec \<Rightarrow> mat"
  cons_drdx :: "vec \<Rightarrow> mat"
  cons_res :: "vec \<Rightarrow> vec"
  eigh :: "mat \<Rightarrow> vec \<times> mat"
  hessian_update :: "mat option \<Rightarrow> vec \<Rightarrow> vec \<Rightarrow> mat"
  hessian_update_m :: "mat option \<Rightarrow> mat \<Rightarrow> mat \<Rightarrow> mat"
  symmetrize_Y :: "mat \<Rightarrow> mat \<Rightarrow> mat"

definition Ufree :: "env \<Rightarrow> pes \<Rightarrow> mat" where
  "Ufree e s = cons_Ufree e (positions s)"

definition Ucons :: "env \<Rightarrow> pes \<Rightarrow> mat" where
  "Ucons e s = cons_Ucons e (positions s)"

definition drdx :: "env \<Rightarrow> pes \<Rightarrow> mat" where
  "drdx e s = cons_drdx e (positions s)"

text \<open>
  The setter of \<open>H\<close> (lines 43-53): \<open>None\<close> clears the four attributes, a matrix is
  stored, projected and diagonalised at once.
\<close>

definition set_H :: "env \<Rightarrow> mat option \<Rightarrow> pes \<Rightarrow> pes" where
  "set_H e target s =
     (case target of
        None \<Rightarrow> s\<lparr>H_mat := None, Hred := None, lams := None, vecs := None\<rparr>
      | Some t \<Rightarrow>
          (let hred = mat_mul (mat_mul (transpose (Ufree e s)) t) (Ufree e s);
               lv = eigh e hred
           in s\<lparr>H_mat := Some t, Hred := Some hred, lams := Some (fst lv), vecs := Some (snd lv)\<rparr>))"

text \<open>
  \<open>BasePES._update\<close> (lines 55-68).  The result is the returned flag and the object
  afterwards.  \<open>traj.write()\<close> writes to a file (or does nothing) and is left out.
\<close>

definition BasePES_update :: "env \<Rightarrow> pes \<Rightarrow> bool \<times> pes" where
  "BasePES_update e s =
     (let x = positions s in
      if last_rec s ''x'' \<noteq> Some NoneV \<and> last_rec s ''x'' = Some (Vec x) then (False, s)
      else
        (let g = vneg (get_forces e x);
             f = get_potential_energy e x
         in (True, s\<lparr>lastlast := last_rec s,
                     last_rec := [''x'' \<mapsto> Vec x, ''f'' \<mapsto> Num f, ''g'' \<mapsto> Vec g],
                     neval := neval s + 1\<rparr>)))"

text \<open>\<open>CartPES._update\<close> (lines 179-188).\<close>

definition the_vec :: "val option \<Rightarrow> vec" where
  "the_vec v = (case v of Some (Vec u) \<Rightarrow> u | _ \<Rightarrow> [])"

definition CartPES_update :: "env \<Rightarrow> pes \<Rightarrow> bool \<times> pes" where
  "CartPES_update e s =
     (case BasePES_update e s of
        (False, s') \<Rightarrow> (False, s')
      | (True, s') \<Rightarrow>
          (let g = the_vec (last_rec s' ''g'');
               gfree = matvec (transpose (Ufree e s')) g;
               h = vsub g (matvec (mat_mul (drdx e s') (transpose (Ucons e s'))) g)
           in (True, s'\<lparr>last_rec := (last_rec s')(''gfree'' \<mapsto> Vec gfree, ''h'' \<mapsto> Vec h)\<rparr>)))"

text \<open>The properties \<open>x\<close>, \<open>f\<close>, \<open>g\<close>, \<open>gfree\<close> of \<open>CartPES\<close>: a read returns the value and the object.\<close>

definition get_x :: "pes \<Rightarrow> vec" where
  "get_x s = positions s"

text \<open>
  The setter of \<open>x\<close> (lines 194-196): \<open>target.reshape((-1, 3))\<close> raises when the length is
  not a multiple of 3.
\<close>

definition set_x :: "vec \<Rightarrow> pes \<Rightarrow> error + pes" where
  "set_x target s =
     (if length target mod 3 \<noteq> 0 then Inl (ValueError ''cannot reshape array'')
      else Inr (s\<lparr>positions := target\<rparr>))"

definition get_f :: "env \<Rightarrow> pes \<Rightarrow> val option \<times> pes" where
  "get_f e s = (let s' = snd (CartPES_update e s) in (last_rec s' ''f'', s'))"

definition get_g :: "env \<Rightarrow> pes \<Rightarrow> val option \<times> pes" where
  "get_g e s = (let s' = snd (CartPES_update e s) in (last_rec s' ''g'', s'))"

definition get_gfree :: "env \<Rightarrow> pes \<Rightarrow> val option \<times> pes" where
  "get_gfree e s = (let s' = snd (CartPES_update e s) in (last_rec s' ''gfree'', s'))"

text \<open>
  \<open>CartPES.update_H\<close> (lines 233-238).  \<open>self.x - self.lastlast['x']\<close> is evaluated before
  \<open>self.g\<close> is read; \<open>self.g\<close> may run \<open>_update\<close>, and \<open>self.lastlast['g']\<close> is read after it.
  Subtracting \<open>None\<close> from an array raises \<open>TypeError\<close>.
\<close>

definition CartPES_update_H :: "env \<Rightarrow> pes \<Rightarrow> error + pes" where
  "CartPES_update_H e s =
     (if lastlast s ''x'' = Some NoneV then Inr s
      else
        (case lastlast s ''x'' of
           Some (Vec lx) \<Rightarrow>
             (let dx = vsub (get_x s) lx;
                  gs = get_g e s
              in (case (fst gs, lastlast (snd gs) ''g'') of
                    (Some (Vec g), Some (Vec lg)) \<Rightarrow>
                      Inr (set_H e (Some (hessian_update e (H_mat (snd gs)) dx (vsub g lg))) (snd gs))
                  | _ \<Rightarrow> Inl (TypeError ''unsupported operand'')))
         | _ \<Rightarrow> Inl (TypeError ''unsupported operand'')))"

text \<open>
  \<open>BasePES._calc_eg\<close> (lines 130-136), the callback handed to \<open>NumericalHessian\<close>: it moves
  the geometry, reads \<open>g\<close> and \<open>f\<close>, and puts the old positions back.  The object is
  returned in every case, also when the setter raises.
\<close>

definition calc_eg :: "env \<Rightarrow> vec \<Rightarrow> pes \<Rightarrow> (error + val option \<times> val option) \<times> pes" where
  "calc_eg e x s =
     (case set_x x s of
        Inl err \<Rightarrow> (Inl err, s)
      | Inr s1 \<Rightarrow>
          (let gs = get_g e s1;
               fs = get_f e (snd gs)
           in (Inr (fst fs, fst gs), (snd fs)\<lparr>positions := positions s\<rparr>)))"

text \<open>
  The probing phase of \<open>diag\<close>, that is \<open>NumericalHessian\<close>, \<open>ProjectedMatrix\<close> and
  \<open>rayleigh_ritz\<close> of \<open>sella.linalg\<close> and \<open>sella.eigensolvers\<close>, is not in these two files.
  It is a parameter: given the callback \<open>_calc_eg\<close>, the point \<open>x0\<close>, the gradient there,
  \<open>Ufree\<close>, the seed \<open>P\<close> and \<open>v0\<close>, it works on the object and either raises or yields
  \<open>Hproj.Vs\<close> and \<open>Hproj.AVs\<close>.  The object it leaves behind is returned in both cases.
\<close>

type_synonym prober =
  "(vec \<Rightarrow> pes \<Rightarrow> (error + val option \<times> val option) \<times> pes)
     \<Rightarrow> vec \<Rightarrow> vec \<Rightarrow> mat \<Rightarrow> mat \<Rightarrow> vec option \<Rightarrow> pes \<Rightarrow> (error + mat \<times> mat) \<times> pes"

text \<open>
  \<open>BasePES.diag\<close> (lines 138-164) on a \<open>CartPES\<close>.  \<open>Inl (err, s)\<close> is an exception \<open>err\<close>
  leaving the object as \<open>s\<close>; \<open>Inr s\<close> is a normal return.
\<close>

definition diag :: "env \<Rightarrow> prober \<Rightarrow> pes \<Rightarrow> error \<times> pes + pes" where
  "diag e rayleigh_ritz s =
     (let lastlast0 = lastlast s;
          last0 = last_rec s;
          x0 = get_x s;
          seed = (case Hred s of
                    None \<Rightarrow>
                      (let gf = get_gfree e s
                       in (eye (length (matvec (transpose (Ufree e s)) (get_x s))),
                           Some (the_vec (fst gf)), snd gf))
                  | Some P \<Rightarrow> (P, None, s));
          P = fst seed;
          v0 = fst (snd seed);
          gs = get_g e (snd (snd seed));
          s2 = snd gs
      in case rayleigh_ritz (calc_eg e) x0 (the_vec (fst gs)) (Ufree e s2) P v0 s2 of
           (Inl err, s3) \<Rightarrow> Inl (err, s3)
         | (Inr (Vs, AVs), s3) \<Rightarrow>
             (case set_x x0 s3 of
                Inl err \<Rightarrow> Inl (err, s3)
              | Inr s4 \<Rightarrow>
                  (let Atilde = mat_mul (transpose Vs) (symmetrize_Y e Vs AVs);
                       X = snd (eigh e Atilde);
                       Vs' = mat_mul Vs X;
                       AVs' = mat_mul AVs X;
                       AVstilde = mat_sub AVs'
                                    (mat_mul (mat_mul (drdx e s4) (transpose (Ucons e s4))) AVs');
                       s5 = set_H e (Some (hessian_update_m e (H_mat s4) Vs' AVstilde)) s4
                   in Inr (s5\<lparr>lastlast := lastlast0, last_rec := last0\<rparr>))))"

section \<open>The trust-region Newton solver (irc.py, rs_newton_irc)\<close>

text \<open>
  \<open>numpy.nextafter\<close> on the doubles: the next double after \<open>x\<close> in the direction of \<open>y\<close>,
  as a function on the reals that are doubles (\<open>inf\<close> is not included).  The spacing of
  the doubles around \<open>x\<close> is \<open>2 ^ (e - 52)\<close> for \<open>2 ^ e \<le> \<bar>x\<bar> < 2 ^ (e + 1)\<close>, with \<open>e\<close> not below
  \<open>-1022\<close>, and half of that just below a power of two.
\<close>

definition min_subnormal :: real where
  "min_subnormal = 1 / 2 ^ 1074"

definition ulp_above :: "real \<Rightarrow> real" where
  "ulp_above x = 2 powi (max \<lfloor>log 2 \<bar>x\<bar>\<rfloor> (- 1022) - 52)"

definition ulp_below :: "real \<Rightarrow> real" where
  "ulp_below x =
     (if \<bar>x\<bar> = 2 powi \<lfloor>log 2 \<bar>x\<bar>\<rfloor> \<and> - 1022 < \<lfloor>log 2 \<bar>x\<bar>\<rfloor> then 2 powi (\<lfloor>log 2 \<bar>x\<bar>\<rfloor> - 53)
      else ulp_above x)"

definition nextafter :: "real \<Rightarrow> real \<Rightarrow> real" where
  "nextafter x y =
     (if x = y then y
      else if x = 0 then (if 0 < y then min_subnormal else - min_subnormal)
      else if (x < y) = (0 < x) then x + sgn x * ulp_above x
      else x - sgn x * ulp_below x)"

text \<open>
  Lines 12-31: the mass-weighted Hessian is rebuilt from the reduced eigenpairs of the
  PES, diagonalised, and the modes with \<open>\<bar>\<lambda>\<bar> \<le> 1e-8\<close> are dropped.  The quantities the
  rest of the function works with are collected in a record.
\<close>

record nctx =
  n_vecs :: mat
  n_L :: vec
  n_Vg :: vec
  n_Vd1 :: vec
  n_d1mw :: vec

definition newton_setup :: "env \<Rightarrow> mat \<Rightarrow> vec \<Rightarrow> mat \<Rightarrow> vec \<Rightarrow> vec \<Rightarrow> vec \<Rightarrow> nctx" where
  "newton_setup e Uf Lcart pvecs sqrtm g d1 =
     (let vecscart = mat_mul Uf pvecs;
          Hmw = mat_div (mat_mul (mat_mul vecscart (diag_mat Lcart)) (transpose vecscart))
                  (outer sqrtm sqrtm);
          LV = eigh e Hmw;
          ind = filter (\<lambda>i. \<bar>fst LV ! i\<bar> > 1 / 10 ^ 8) [0..<length (fst LV)];
          L = map (\<lambda>i. \<bar>fst LV ! i\<bar>) ind;
          V = columns (snd LV) ind;
          gmw = vdiv g sqrtm;
          d1mw = vmul d1 sqrtm
      in \<lparr>n_vecs = V, n_L = L, n_Vg = matvec (transpose V) gmw,
          n_Vd1 = matvec (transpose V) d1mw, n_d1mw = d1mw\<rparr>)"

text \<open>Line 33: the unshifted candidate.  Line 44: the shifted one.\<close>

definition epsmw_unshifted :: "nctx \<Rightarrow> vec" where
  "epsmw_unshifted c = vneg (matvec (n_vecs c) (vdiv (n_Vg c) (n_L c)))"

definition epsmw_at :: "nctx \<Rightarrow> real \<Rightarrow> vec" where
  "epsmw_at c xi =
     vneg (matvec (n_vecs c)
       (vdiv (vadd (n_Vg c) (vscale xi (n_Vd1 c))) (map (\<lambda>l. l + xi) (n_L c))))"

definition d2mw_at :: "nctx \<Rightarrow> real \<Rightarrow> vec" where
  "d2mw_at c xi = vadd (n_d1mw c) (epsmw_at c xi)"

text \<open>Line 48: the convergence criterion.\<close>

definition converged_at :: "nctx \<Rightarrow> real \<Rightarrow> real \<Rightarrow> bool" where
  "converged_at c dx xi \<longleftrightarrow> \<bar>linalg_norm (d2mw_at c xi) - dx\<bar> < 1 / 10 ^ 14 * dx"

text \<open>Lines 50-52: the Newton proposal for the change of \<open>xi\<close>.\<close>

definition dxi_at :: "nctx \<Rightarrow> real \<Rightarrow> real \<Rightarrow> real" where
  "dxi_at c dx xi =
     (let d2mw = d2mw_at c xi;
          d2mw_mag = linalg_norm d2mw;
          depsmw = vneg (matvec (n_vecs c)
                     (vsub (vdiv (n_Vd1 c) (map (\<lambda>l. l + xi) (n_L c)))
                           (vdiv (vadd (n_Vg c) (vscale xi (n_Vd1 c)))
                                 (map (\<lambda>l. (l + xi) ^ 2) (n_L c)))));
          dd2mw_mag = dot d2mw depsmw / d2mw_mag
      in (dx - d2mw_mag) / dd2mw_mag)"

text \<open>Lines 54-57: the bracket after the proposal.\<close>

definition new_xilower :: "real \<Rightarrow> real \<Rightarrow> real \<Rightarrow> real" where
  "new_xilower dxi xi xilower = (if dxi < 0 then xilower else if dxi > 0 then xi else xilower)"

definition new_xiupper :: "real \<Rightarrow> real \<Rightarrow> real option \<Rightarrow> real option" where
  "new_xiupper dxi xi xiupper = (if dxi < 0 then Some xi else xiupper)"

text \<open>Line 59: the bracket has collapsed.\<close>

definition collapsed :: "real \<Rightarrow> real option \<Rightarrow> bool" where
  "collapsed xilower xiupper =
     (case xiupper of None \<Rightarrow> False | Some u \<Rightarrow> nextafter xilower u \<ge> u)"

text \<open>Lines 62-70: the next \<open>xi\<close>.\<close>

definition next_xi :: "real \<Rightarrow> real \<Rightarrow> real \<Rightarrow> real option \<Rightarrow> real" where
  "next_xi dxi xi xilower xiupper =
     (let xi1 = xi + dxi in
      if xi1 \<le> xilower \<or> (case xiupper of None \<Rightarrow> False | Some u \<Rightarrow> xi1 \<ge> u)
      then (case xiupper of None \<Rightarrow> xi + (xi - xilower) | Some u \<Rightarrow> (u + xilower) / 2)
      else xi1)"

text \<open>
  Lines 43-72: the \<open>for\<close> loop, with the iterations left as the first argument.  It ends
  at one of its two \<open>break\<close>s, with the current \<open>xi\<close> and \<open>epsmw\<close>, or runs out (\<open>None\<close>),
  which is the \<open>else\<close> clause of the loop.
\<close>

datatype loop_exit = Converged | Collapsed

fun newton_loop ::
  "nat \<Rightarrow> nctx \<Rightarrow> real \<Rightarrow> real \<Rightarrow> real \<Rightarrow> real option \<Rightarrow> (loop_exit \<times> real \<times> vec) option" where
  "newton_loop 0 c dx xi xilower xiupper = None"
| "newton_loop (Suc n) c dx xi xilower xiupper =
     (if converged_at c dx xi then Some (Converged, xi, epsmw_at c xi)
      else if collapsed (new_xilower (dxi_at c dx xi) xi xilower)
                        (new_xiupper (dxi_at c dx xi) xi xiupper)
      then Some (Collapsed, xi, epsmw_at c xi)
      else newton_loop n c dx
             (next_xi (dxi_at c dx xi) xi (new_xilower (dxi_at c dx xi) xi xilower)
                      (new_xiupper (dxi_at c dx xi) xi xiupper))
             (new_xilower (dxi_at c dx xi) xi xilower)
             (new_xiupper (dxi_at c dx xi) xi xiupper))"

declare newton_loop.simps [simp del]

text \<open>
  \<open>rs_newton_irc\<close> (lines 11-75).  \<open>pes.lams\<close> and \<open>pes.vecs\<close> are \<open>None\<close> until a Hessian
  has been assigned; numpy raises on them.
\<close>

definition rs_newton_irc ::
  "env \<Rightarrow> pes \<Rightarrow> vec \<Rightarrow> vec \<Rightarrow> vec \<Rightarrow> real \<Rightarrow> real \<Rightarrow> error + vec \<times> real \<times> bool" where
  "rs_newton_irc e p sqrtm g d1 dx xi =
     (case (lams p, vecs p) of
        (Some Lcart, Some pvecs) \<Rightarrow>
          (let c = newton_setup e (Ufree e p) Lcart pvecs sqrtm g d1;
               epsmw = epsmw_unshifted c;
               d2mw = vadd (n_d1mw c) epsmw;
               d2mw_mag = linalg_norm d2mw
           in if d2mw_mag < dx then Inr (vdiv epsmw sqrtm, xi, False)
              else (case newton_loop 100 c dx xi 0 None of
                      None \<Rightarrow> Inl (RuntimeError ''IRC Newton step failed!'')
                    | Some (ex, xi', epsmw') \<Rightarrow> Inr (vdiv epsmw' sqrtm, xi', True)))
      | _ \<Rightarrow> Inl (TypeError ''unsupported operand''))"



section \<open>The IRC driver (irc.py, class IRC)\<close>

text \<open>
  The attributes of an \<open>IRC\<close> object.  \<open>d1\<close> is created by \<open>irun\<close>; \<open>step\<close> is called by the
  optimizer loop that \<open>irun\<close> starts, so the attribute exists whenever \<open>step\<close> runs.
\<close>

record irc =
  irc_pes :: pes
  irc_sqrtm :: vec
  irc_dx :: real
  irc_irctol :: real
  irc_x0 :: vec
  irc_v0ts :: "vec option"
  irc_H0 :: "mat option"
  irc_peslast :: "evalrec option"
  irc_d1 :: vec
  irc_xi :: real
  irc_first :: bool

text \<open>
  \<open>IRC.irun\<close> (lines 119-144), up to the call of \<open>Optimizer.irun\<close>, which makes the
  generator that is returned and runs nothing of it.  \<open>IRC.irun\<close> has no \<open>yield\<close>: its body
  runs when it is called.
\<close>

definition irun_prepare :: "env \<Rightarrow> prober \<Rightarrow> irc \<Rightarrow> error + irc" where
  "irun_prepare e rr s =
     (case irc_v0ts s of
        None \<Rightarrow>
          (case diag e rr (irc_pes s) of
             Inl (err, p) \<Rightarrow> Inl err
           | Inr p \<Rightarrow>
               (case H_mat p of
                  None \<Rightarrow> Inl (TypeError ''unsupported operand'')
                | Some Hp \<Rightarrow>
                    (let Hw = mat_div Hp (outer (irc_sqrtm s) (irc_sqrtm s));
                         evecs = snd (eigh e Hw)
                     in Inr (s\<lparr>irc_pes := p,
                               irc_v0ts := Some (vdiv (vscale (irc_dx s) (map (\<lambda>row. row ! 0) evecs))
                                                      (irc_sqrtm s)),
                               irc_H0 := Some Hp,
                               irc_peslast := Some (last_rec p)\<rparr>))))
      | Some v \<Rightarrow>
          (case (irc_H0 s, irc_peslast s) of
             (Some H0, Some pl) \<Rightarrow>
               (case set_x (irc_x0 s) (irc_pes s) of
                  Inl err \<Rightarrow> Inl err
                | Inr p \<Rightarrow> Inr (s\<lparr>irc_pes := (set_H e (Some H0) p)\<lparr>last_rec := pl\<rparr>\<rparr>))
           | _ \<Rightarrow> Inl (AttributeError ''copy'')))"

definition irun :: "env \<Rightarrow> prober \<Rightarrow> string \<Rightarrow> irc \<Rightarrow> error + irc" where
  "irun e rr direction s =
     (if direction \<notin> set [''forward'', ''reverse'']
      then Inl (ValueError ''direction must be one of forward or reverse!'')
      else
        (case irun_prepare e rr s of
           Inl err \<Rightarrow> Inl err
         | Inr s1 \<Rightarrow>
             (case irc_v0ts s1 of
                None \<Rightarrow> Inl (AttributeError ''copy'')
              | Some v \<Rightarrow>
                  Inr ((if direction = ''forward'' then s1\<lparr>irc_d1 := v\<rparr>
                        else if direction = ''reverse'' then s1\<lparr>irc_d1 := vneg v\<rparr>
                        else s1)\<lparr>irc_first := True\<rparr>))))"

text \<open>
  \<open>IRC.run\<close> (lines 146-149) walks through the generator of \<open>irun\<close>.  The optimizer loop
  of ASE is a parameter: it takes the prepared object and yields the last flag.
\<close>

definition run ::
  "env \<Rightarrow> prober \<Rightarrow> (irc \<Rightarrow> error + bool \<times> irc) \<Rightarrow> string \<Rightarrow> irc \<Rightarrow> error + bool \<times> irc" where
  "run e rr optimizer_irun direction s =
     (case irun e rr direction s of Inl err \<Rightarrow> Inl err | Inr s1 \<Rightarrow> optimizer_irun s1)"

text \<open>
  Lines 156-164 of \<open>IRC.step\<close>: the choice of \<open>eps\<close> in one pass of the inner loop.  The
  result is \<open>bound_clip\<close> and the object.
\<close>

definition step_eps :: "env \<Rightarrow> val option \<Rightarrow> irc \<Rightarrow> error + bool \<times> irc" where
  "step_eps e g1 s =
     (if irc_first s then Inr (True, s\<lparr>irc_first := False\<rparr>)
      else
        (case g1 of
           Some (Vec g) \<Rightarrow>
             (case rs_newton_irc e (irc_pes s) (irc_sqrtm s) g (irc_d1 s) (irc_dx s) (irc_xi s) of
                Inl err \<Rightarrow> Inl err
              | Inr (eps, xi, bound_clip) \<Rightarrow>
                  Inr (bound_clip, s\<lparr>irc_xi := xi, irc_d1 := vadd (irc_d1 s) eps\<rparr>))
         | _ \<Rightarrow> Inl (TypeError ''unsupported operand'')))"

text \<open>Lines 169-174: the alignment test that ends the inner loop.\<close>

definition aligned :: "mat \<Rightarrow> vec \<Rightarrow> bool \<Rightarrow> irc \<Rightarrow> bool" where
  "aligned Pfree g1 bound_clip s =
     (let d1m = vmul (irc_d1 s) (irc_sqrtm s);
          d1m' = map (\<lambda>a. a / linalg_norm d1m) d1m;
          g1m = vdiv (matvec Pfree g1) (irc_sqrtm s);
          g1m' = map (\<lambda>a. a / linalg_norm g1m) g1m;
          dt = \<bar>dot d1m' g1m'\<bar>
      in bound_clip \<and> \<bar>1 - dt\<bar> < irc_irctol s)"

text \<open>Lines 155-177: the inner loop, with the passes left as the first argument.\<close>

fun step_loop :: "nat \<Rightarrow> env \<Rightarrow> vec \<Rightarrow> mat \<Rightarrow> val option \<Rightarrow> irc \<Rightarrow> error + vec \<times> irc" where
  "step_loop 0 e x0 Pfree g1 s = Inl (RuntimeError ''Inner IRC loop failed to converge'')"
| "step_loop (Suc n) e x0 Pfree g1 s =
     (case step_eps e g1 s of
        Inl err \<Rightarrow> Inl err
      | Inr (bound_clip, s1) \<Rightarrow>
          (case set_x (vadd x0 (irc_d1 s1)) (irc_pes s1) of
             Inl err \<Rightarrow> Inl err
           | Inr p1 \<Rightarrow>
               (case CartPES_update_H e (snd (get_g e p1)) of
                  Inl err \<Rightarrow> Inl err
                | Inr p3 \<Rightarrow>
                    (if aligned Pfree (the_vec (fst (get_g e p1))) bound_clip (s1\<lparr>irc_pes := p3\<rparr>)
                     then Inr (the_vec (fst (get_g e p1)), s1\<lparr>irc_pes := p3\<rparr>)
                     else step_loop n e x0 Pfree (fst (get_g e p1)) (s1\<lparr>irc_pes := p3\<rparr>)))))"

text \<open>\<open>IRC.step\<close> (lines 151-181).\<close>

definition step :: "env \<Rightarrow> irc \<Rightarrow> error + irc" where
  "step e s =
     (let x0 = get_x (irc_pes s);
          Pfree = mat_mul (Ufree e (irc_pes s)) (transpose (Ufree e (irc_pes s)));
          g1 = last_rec (irc_pes s) ''g''
      in case step_loop 100 e x0 Pfree g1 s of
           Inl err \<Rightarrow> Inl err
         | Inr (g1', s') \<Rightarrow>
             (let g1w = vdiv g1' (irc_sqrtm s');
                  d1w = map (\<lambda>a. - irc_dx s' * a / linalg_norm g1w) g1w
              in Inr (s'\<lparr>irc_d1 := vdiv d1w (irc_sqrtm s')\<rparr>)))"

section \<open>The retraction of the internal coordinates (peswrapper.py, IntPES.x)\<close>

text \<open>
  The coordinate map \<open>self.int\<close> and the integrator \<open>scipy.integrate.LSODA\<close> are outside
  these files.  The integrator is an object of some type \<open>'o\<close> made from \<open>y0\<close> (with
  \<open>_q_ode\<close>, \<open>t = 0\<close>, \<open>t_bound = 1\<close> and \<open>atol = 1e-9\<close> fixed), advanced by \<open>step()\<close>, and read
  through \<open>status\<close>, \<open>nfev\<close> and \<open>y\<close>.
\<close>

datatype ode_status = Running | Finished | Failed

record 'o int_env =
  int_q :: "vec \<Rightarrow> vec"
  int_q_wrap :: "vec \<Rightarrow> vec"
  int_Binv :: "vec \<Rightarrow> mat"
  LSODA :: "vec \<Rightarrow> 'o"
  ode_step :: "'o \<Rightarrow> 'o"
  ode_status :: "'o \<Rightarrow> ode_status"
  ode_nfev :: "'o \<Rightarrow> nat"
  ode_y :: "'o \<Rightarrow> vec"

text \<open>
  Lines 297-301: the \<open>while\<close> loop.  Nothing in the code bounds the number of its passes,
  so it is a partial function: \<open>None\<close> is a loop that never ends.
\<close>

partial_function (option) ode_loop :: "'o int_env \<Rightarrow> 'o \<Rightarrow> (error + 'o) option" where
  "ode_loop E ode =
     (if ode_status E ode = Running
      then (if ode_nfev E (ode_step E ode) > 200
            then Some (Inl (RuntimeError ''Geometry update ODE is taking too long to converge!''))
            else ode_loop E (ode_step E ode))
      else Some (Inr ode))"

text \<open>
  The setter of \<open>IntPES.x\<close> (lines 288-304): from the positions and the target to the new
  positions or the error raised.
\<close>

definition IntPES_set_x :: "'o int_env \<Rightarrow> vec \<Rightarrow> vec \<Rightarrow> (error + vec) option" where
  "IntPES_set_x E target pos =
     (let pos0 = pos;
          dq = int_q_wrap E (vsub target (int_q E pos));
          nx = length pos0;
          y0 = pos0 @ matvec (int_Binv E pos) dq
      in case ode_loop E (LSODA E y0) of
           None \<Rightarrow> None
         | Some (Inl err) \<Rightarrow> Some (Inl err)
         | Some (Inr ode) \<Rightarrow>
             (if ode_status E ode = Failed
              then Some (Inl (RuntimeError ''Geometry update ODE failed to converge!''))
              else Some (Inr (take nx (ode_y E ode)))))"

text \<open>Lines 292-294: the initial value \<open>y0\<close> given to the integrator.\<close>

definition y0_of :: "'o int_env \<Rightarrow> vec \<Rightarrow> vec \<Rightarrow> vec" where
  "y0_of E target pos = pos @ matvec (int_Binv E pos) (int_q_wrap E (vsub target (int_q E pos)))"

section \<open>Concrete inputs\<close>

text \<open>
  One atom in the harmonic potential \<open>E(x) = \<bar>x\<bar>\<^sup>2 / 2\<close>, without constraints.  \<open>eigh_diag\<close>
  is the eigendecomposition of a diagonal matrix whose diagonal ascends, which is all it
  is applied to below.
\<close>

definition eigh_diag :: "mat \<Rightarrow> vec \<times> mat" where
  "eigh_diag M = (map (\<lambda>i. M ! i ! i) [0..<length M], eye (length M))"

definition env1 :: env where
  "env1 = \<lparr>get_forces = vneg, get_potential_energy = (\<lambda>x. dot x x / 2),
           cons_Ufree = (\<lambda>x. eye 3), cons_Ucons = (\<lambda>x. [[], [], []]),
           cons_drdx = (\<lambda>x. [[], [], []]), cons_res = (\<lambda>x. []),
           eigh = eigh_diag,
           hessian_update = (\<lambda>B dx dg. eye 3), hessian_update_m = (\<lambda>B S Y. eye 3),
           symmetrize_Y = (\<lambda>Vs AVs. AVs)\<rparr>"

text \<open>A fresh \<open>CartPES\<close> at \<open>(1, 0, 0)\<close>, and the same object after \<open>f\<close> has been read once.\<close>

definition pes0 :: pes where
  "pes0 = \<lparr>positions = [1, 0, 0], last_rec = empty_rec(''gfree'' \<mapsto> NoneV, ''h'' \<mapsto> NoneV),
           lastlast = empty_rec, neval = 0, H_mat = None, Hred = None, lams = None, vecs = None\<rparr>"

definition pes1 :: pes where
  "pes1 = snd (get_f env1 pes0)"

text \<open>After \<open>pes.x = (2, 0, 0)\<close>, with nothing read since.\<close>

definition pes_stale :: pes where
  "pes_stale = pes1\<lparr>positions := [2, 0, 0]\<rparr>"

text \<open>
  Two probing phases: both evaluate the gradient once, a little away from \<open>x0\<close>; the first
  returns one vector and its image, the second raises.
\<close>

definition rr_ok :: prober where
  "rr_ok calc x0 g Uf P v0 s =
     (Inr ([[1], [0], [0]], [[1], [0], [0]]), snd (calc (vadd x0 [1 / 10000, 0, 0]) s))"

definition rr_fail :: prober where
  "rr_fail calc x0 g Uf P v0 s =
     (Inl (RuntimeError ''eigensolver failed''), snd (calc (vadd x0 [1 / 10000, 0, 0]) s))"

text \<open>The object after \<open>diag\<close> with each of them, from \<open>pes1\<close>.\<close>

definition diag_fail_state :: pes where
  "diag_fail_state =
     \<lparr>positions = [1, 0, 0],
      last_rec = [''x'' \<mapsto> Vec [1 + 1 / 10000, 0, 0], ''f'' \<mapsto> Num ((1 + 1 / 10000) * (1 + 1 / 10000) / 2),
                  ''g'' \<mapsto> Vec [1 + 1 / 10000, 0, 0], ''gfree'' \<mapsto> Vec [1 + 1 / 10000, 0, 0],
                  ''h'' \<mapsto> Vec [1 + 1 / 10000, 0, 0]],
      lastlast = last_rec pes1, neval = 2,
      H_mat = None, Hred = None, lams = None, vecs = None\<rparr>"

definition diag_ok_state :: pes where
  "diag_ok_state =
     \<lparr>positions = [1, 0, 0], last_rec = last_rec pes1, lastlast = lastlast pes1, neval = 2,
      H_mat = Some (eye 3), Hred = Some (eye 3), lams = Some [1, 1, 1], vecs = Some (eye 3)\<rparr>"

text \<open>
  An \<open>IRC\<close> object on \<open>pes1\<close> with unit masses and \<open>dx = 1/2\<close>, as \<open>__init__\<close> leaves
  it; the same after \<open>irun\<close> forward; and after the first \<open>step\<close>, which moves the
  geometry to \<open>(3/2, 0, 0)\<close>.  \<open>irc_unset\<close> is an object whose PES has never been evaluated.
\<close>

definition irc0 :: irc where
  "irc0 = \<lparr>irc_pes = pes1, irc_sqrtm = [1, 1, 1], irc_dx = 1 / 2, irc_irctol = 1 / 100,
            irc_x0 = [1, 0, 0], irc_v0ts = None, irc_H0 = None, irc_peslast = None,
            irc_d1 = [], irc_xi = 1, irc_first = True\<rparr>"

definition irc_fwd :: irc where
  "irc_fwd = irc0\<lparr>irc_pes := diag_ok_state, irc_v0ts := Some [1 / 2, 0, 0],
                  irc_H0 := Some (eye 3), irc_peslast := Some (last_rec pes1),
                  irc_d1 := [1 / 2, 0, 0]\<rparr>"




text \<open>
  What \<open>rs_newton_irc\<close> works with when the Hessian is the identity on three coordinates,
  the masses are 1 and \<open>g\<close> and \<open>d1\<close> lie along the first axis.
\<close>

definition ctx1 :: "real \<Rightarrow> real \<Rightarrow> nctx" where
  "ctx1 a b = \<lparr>n_vecs = eye 3, n_L = [1, 1, 1], n_Vg = [a, 0, 0], n_Vd1 = [b, 0, 0], n_d1mw = [b, 0, 0]\<rparr>"

text \<open>
  An integrator for the retraction on three coordinates, with the identity as coordinate
  map: an object is its status, its \<open>nfev\<close> and its \<open>y\<close>.  Every \<open>step()\<close> evaluates the
  right-hand side \<open>per_step\<close> times and leaves \<open>y\<close> as it is; after \<open>steps\<close> steps the status
  becomes \<open>final\<close>.
\<close>

type_synonym ode1 = "ode_status \<times> nat \<times> vec"

definition ode_env :: "nat \<Rightarrow> nat \<Rightarrow> ode_status \<Rightarrow> ode1 int_env" where
  "ode_env per_step steps final =
     \<lparr>int_q = (\<lambda>x. x), int_q_wrap = (\<lambda>d. d), int_Binv = (\<lambda>x. eye 3),
      LSODA = (\<lambda>y0. (Running, 0, y0)),
      ode_step = (\<lambda>(s, n, y). (if steps * per_step \<le> n + per_step then final else Running,
                                 n + per_step, take 3 y @ drop 3 y)),
      ode_status = fst, ode_nfev = (\<lambda>ode. fst (snd ode)), ode_y = (\<lambda>ode. snd (snd ode))\<rparr>"

section \<open>Properties of the PES wrapper\<close>

lemma eye3: "eye 3 = [[1, 0, 0], [0, 1, 0], [0, 0, 1]]"
  by (simp add: eye_def diag_mat_def upt_rec numeral_3_eq_3 nth_Cons')

lemma eye3_Suc: "eye (Suc (Suc (Suc 0))) = [[1, 0, 0], [0, 1, 0], [0, 0, 1]]"
  using eye3 by (simp add: numeral_3_eq_3)

lemma eye1_Suc: "eye (Suc 0) = [[1]]"
  by (simp add: eye_def diag_mat_def)

lemmas concrete_defs =
  get_f_def get_g_def get_gfree_def get_x_def set_x_def CartPES_update_def BasePES_update_def
  env1_def empty_rec_def the_vec_def Ufree_def drdx_def Ucons_def eye3 matvec_def mat_mul_def
  dot_def vsub_def vadd_def vneg_def Let_def

lemma pes1_eq:
  "pes1 = \<lparr>positions = [1, 0, 0],
     last_rec = [''x'' \<mapsto> Vec [1, 0, 0], ''f'' \<mapsto> Num (1 / 2), ''g'' \<mapsto> Vec [1, 0, 0],
                 ''gfree'' \<mapsto> Vec [1, 0, 0], ''h'' \<mapsto> Vec [1, 0, 0]],
     lastlast = empty_rec(''gfree'' \<mapsto> NoneV, ''h'' \<mapsto> NoneV), neval = 1,
     H_mat = None, Hred = None, lams = None, vecs = None\<rparr>"
  by (simp add: pes1_def pes0_def concrete_defs)

text \<open>
  Claim C10.  While \<open>lastlast['x']\<close> is \<open>None\<close>, that is while fewer than two evaluation
  records exist, \<open>update_H\<close> returns at once: the object, its Hessian included, is left as
  it was, and no secant update is made.
\<close>

theorem update_H_single_record:
  "lastlast s ''x'' = Some NoneV \<Longrightarrow> CartPES_update_H e s = Inr s"
  by (simp add: CartPES_update_H_def)

theorem update_H_single_record_witness:
  "lastlast pes1 ''x'' = Some NoneV \<and> neval pes1 = 1 \<and> CartPES_update_H env1 pes1 = Inr pes1"
  using update_H_single_record [of pes1 env1] by (simp add: pes1_eq empty_rec_def)






text \<open>
  Claim C6, as it is stated, fails on an object whose geometry has been moved since its
  last evaluation: there \<open>x\<close> set to its current value is still not the \<open>x\<close> of \<open>last\<close>, and
  the next read of \<open>f\<close> evaluates.  After \<open>pes.f\<close> at \<open>(1, 0, 0)\<close> and \<open>pes.x = (2, 0, 0)\<close>, one
  evaluation has been made; \<open>pes.x = pes.x\<close> changes nothing, and \<open>pes.f\<close> then makes a
  second record and counts a second evaluation.
\<close>

theorem set_same_x_counterexample:
  "last_rec pes_stale ''x'' = Some (Vec [1, 0, 0]) \<and> neval pes_stale = 1
   \<and> set_x (get_x pes_stale) pes_stale = Inr pes_stale
   \<and> neval (snd (get_f env1 pes_stale)) = 2
   \<and> lastlast (snd (get_f env1 pes_stale)) = last_rec pes_stale
   \<and> last_rec (snd (get_f env1 pes_stale)) ''x'' = Some (Vec [2, 0, 0])"
  by (simp add: pes_stale_def pes1_eq concrete_defs)

text \<open>
  Claim C6, amended.  Setting \<open>x\<close> to its current value leaves the object as it is.  When
  the current \<open>x\<close> is the \<open>x\<close> of the record \<open>last\<close>, reading \<open>f\<close> or \<open>g\<close> returns the stored
  value and leaves the whole object, so \<open>last\<close>, \<open>lastlast\<close> and \<open>neval\<close>, unchanged.  A
  record is made exactly when the current \<open>x\<close> differs from the \<open>x\<close> of \<open>last\<close> (or there is
  none): then \<open>last\<close> moves to \<open>lastlast\<close> and \<open>neval\<close> grows by one.
\<close>

theorem same_x_no_new_record:
  "(length (positions s) mod 3 = 0 \<longrightarrow> set_x (get_x s) s = Inr s)
   \<and> (last_rec s ''x'' = Some (Vec (positions s)) \<longrightarrow>
        get_f e s = (last_rec s ''f'', s) \<and> get_g e s = (last_rec s ''g'', s))
   \<and> (last_rec s ''x'' \<noteq> Some (Vec (positions s)) \<longrightarrow>
        neval (snd (get_f e s)) = neval s + 1 \<and> lastlast (snd (get_f e s)) = last_rec s
        \<and> neval (snd (get_g e s)) = neval s + 1 \<and> lastlast (snd (get_g e s)) = last_rec s)
   \<and> (fst (CartPES_update e s) \<longleftrightarrow> last_rec s ''x'' \<noteq> Some (Vec (positions s)))"
  by (auto simp add: set_x_def get_x_def get_f_def get_g_def CartPES_update_def
      BasePES_update_def Let_def)

theorem same_x_no_new_record_witness:
  "length (positions pes1) mod 3 = 0 \<and> last_rec pes1 ''x'' = Some (Vec (positions pes1))
   \<and> set_x (get_x pes1) pes1 = Inr pes1 \<and> get_f env1 pes1 = (Some (Num (1 / 2)), pes1)
   \<and> get_g env1 pes1 = (Some (Vec [1, 0, 0]), pes1)
   \<and> last_rec pes0 ''x'' \<noteq> Some (Vec (positions pes0))
   \<and> neval (snd (get_f env1 pes0)) = neval pes0 + 1"
  using same_x_no_new_record [of pes1 env1] same_x_no_new_record [of pes0 env1]
  by (simp add: pes1_eq) (simp add: pes0_def empty_rec_def)

text \<open>
  Claim C8, as it is stated, fails when the probing phase raises: \<open>diag\<close> has no
  \<open>try ... finally\<close>, the two assignments that restore \<open>lastlast\<close> and \<open>last\<close> are its last
  statements, and an exception leaves before them.  Here the probing phase evaluates the
  gradient once at \<open>(1.0001, 0, 0)\<close> and raises: \<open>last\<close> is then the record of the probe,
  and \<open>lastlast\<close> is what \<open>last\<close> was.
\<close>

theorem diag_exception_counterexample:
  "isl (diag env1 rr_fail pes1)
   \<and> last_rec pes1 ''x'' = Some (Vec [1, 0, 0])
   \<and> last_rec (snd (projl (diag env1 rr_fail pes1))) ''x'' = Some (Vec [1 + 1 / 10000, 0, 0])
   \<and> lastlast (snd (projl (diag env1 rr_fail pes1))) = last_rec pes1
   \<and> lastlast pes1 ''x'' = Some NoneV"
proof -
  have "diag env1 rr_fail pes1 = Inl (RuntimeError ''eigensolver failed'', diag_fail_state)"
    by (simp add: diag_def rr_fail_def calc_eg_def diag_fail_state_def pes1_eq concrete_defs)
  then show ?thesis
    by (simp add: diag_fail_state_def pes1_eq empty_rec_def)
qed

text \<open>
  Claim C8, amended.  Whenever \<open>diag\<close> returns, \<open>last\<close> and \<open>lastlast\<close> are what they were
  when it was called, whatever the probing phase evaluated.  (When the probing phase
  raises, nothing is restored.)
\<close>

theorem diag_restores_on_return:
  "diag e rr s = Inr s' \<Longrightarrow> last_rec s' = last_rec s \<and> lastlast s' = lastlast s"
  by (auto simp add: diag_def Let_def split: prod.splits sum.splits option.splits)

theorem diag_restores_on_return_witness:
  "diag env1 rr_ok pes1 = Inr diag_ok_state
   \<and> neval diag_ok_state = 2
   \<and> last_rec diag_ok_state = last_rec pes1
   \<and> lastlast diag_ok_state = lastlast pes1"
proof -
  have d: "diag env1 rr_ok pes1 = Inr diag_ok_state"
    by (simp add: diag_def rr_ok_def calc_eg_def diag_ok_state_def pes1_eq concrete_defs
        set_H_def eigh_diag_def mat_sub_def eye3_Suc eye1_Suc)
  show ?thesis
    using diag_restores_on_return [OF d] d by (simp add: diag_ok_state_def)
qed

section \<open>The solver on one mode\<close>

text \<open>Closed forms of the quantities of the loop for the inputs \<open>ctx1\<close>.\<close>

lemma Ufree_env1: "Ufree env1 p = eye 3"
  by (simp add: Ufree_def env1_def)

lemma norm3: "linalg_norm [a, 0, 0] = \<bar>a\<bar>"
  by (simp add: linalg_norm_def)

lemma setup_eye:
  "newton_setup env1 (eye 3) [1, 1, 1] (eye 3) [1, 1, 1] [a, 0, 0] [b, 0, 0]
   = \<lparr>n_vecs = eye 3, n_L = [1, 1, 1], n_Vg = [a, 0, 0], n_Vd1 = [b, 0, 0], n_d1mw = [b, 0, 0]\<rparr>"
  by (simp add: newton_setup_def env1_def eigh_diag_def eye3 eye3_Suc mat_mul_def dot_def
      diag_mat_def mat_div_def outer_def vdiv_def vmul_def columns_def matvec_def Let_def)

lemma d2mw_ctx1: "d2mw_at (ctx1 a b) xi = [b - (a + xi * b) / (1 + xi), 0, 0]"
  by (simp add: d2mw_at_def epsmw_at_def ctx1_def eye3 matvec_def dot_def vdiv_def vadd_def vscale_def vneg_def)

lemma epsmw_ctx1: "epsmw_at (ctx1 a b) xi = [- ((a + xi * b) / (1 + xi)), 0, 0]"
  by (simp add: epsmw_at_def ctx1_def eye3 matvec_def dot_def vdiv_def vadd_def vscale_def vneg_def)

lemma d2mw_ctx1': "0 < 1 + xi \<Longrightarrow> d2mw_at (ctx1 a b) xi = [(b - a) / (1 + xi), 0, 0]"
proof -
  assume p: "0 < 1 + xi"
  then have "b - (a + xi * b) / (1 + xi) = (b - a) / (1 + xi)"
    by (simp add: field_simps)
  then show ?thesis by (simp add: d2mw_ctx1)
qed

lemma mag_ctx1: "0 < 1 + xi \<Longrightarrow> linalg_norm (d2mw_at (ctx1 a b) xi) = \<bar>b - a\<bar> / (1 + xi)"
  by (simp add: d2mw_ctx1' norm3)

lemma depsmw_ctx1:
  assumes "0 < 1 + xi"
  shows "vneg (matvec (n_vecs (ctx1 a b))
           (vsub (vdiv (n_Vd1 (ctx1 a b)) (map (\<lambda>l. l + xi) (n_L (ctx1 a b))))
                 (vdiv (vadd (n_Vg (ctx1 a b)) (vscale xi (n_Vd1 (ctx1 a b))))
                       (map (\<lambda>l. (l + xi) ^ 2) (n_L (ctx1 a b))))))
         = [- ((b - a) / (1 + xi) ^ 2), 0, 0]"
proof -
  have nz: "1 + xi \<noteq> 0" using assms by simp
  have "b / (1 + xi) = b * (1 + xi) / (1 + xi) ^ 2"
    using nz by (simp add: power2_eq_square)
  then have "b / (1 + xi) - (a + xi * b) / (1 + xi) ^ 2
             = (b * (1 + xi) - (a + xi * b)) / (1 + xi) ^ 2"
    by (simp add: diff_divide_distrib)
  also have "b * (1 + xi) - (a + xi * b) = b - a" by (simp add: algebra_simps)
  finally have de: "b / (1 + xi) - (a + xi * b) / (1 + xi) ^ 2 = (b - a) / (1 + xi) ^ 2" .
  show ?thesis
    by (simp add: ctx1_def eye3 matvec_def dot_def vdiv_def vadd_def vscale_def vneg_def vsub_def de)
qed

lemma newton_ratio:
  fixes m u dx :: real
  assumes "0 < m" and "0 < u"
  shows "(dx - m / u) / (- (m * m / (u * u ^ 2)) / (m / u)) = u - dx * u ^ 2 / m"
proof -
  have "- (m * m / (u * u ^ 2)) / (m / u) = - (m / u ^ 2)"
    using assms by (simp add: field_simps)
  moreover have "(dx - m / u) / (- (m / u ^ 2)) = u - dx * u ^ 2 / m"
    using assms by (simp add: field_simps power2_eq_square)
  ultimately show ?thesis by simp
qed

lemma dxi_ctx1:
  assumes "0 < 1 + xi" and "b \<noteq> a"
  shows "dxi_at (ctx1 a b) dx xi = (1 + xi) - dx * (1 + xi) ^ 2 / \<bar>b - a\<bar>"
proof -
  have m: "0 < \<bar>b - a\<bar>" using assms by simp
  have dt: "dot [(b - a) / (1 + xi), 0, 0] [- ((b - a) / (1 + xi) ^ 2), 0, 0]
            = - (\<bar>b - a\<bar> * \<bar>b - a\<bar> / ((1 + xi) * (1 + xi) ^ 2))"
    by (simp add: dot_def)
  have ab: "\<bar>(b - a) / (1 + xi)\<bar> = \<bar>b - a\<bar> / (1 + xi)"
    using assms by simp
  have "dxi_at (ctx1 a b) dx xi
        = (dx - \<bar>b - a\<bar> / (1 + xi))
          / (- (\<bar>b - a\<bar> * \<bar>b - a\<bar> / ((1 + xi) * (1 + xi) ^ 2)) / (\<bar>b - a\<bar> / (1 + xi)))"
    unfolding dxi_at_def Let_def depsmw_ctx1 [OF assms(1)] d2mw_ctx1' [OF assms(1)] norm3 dt ab
    by (rule refl)
  also have "\<dots> = (1 + xi) - dx * (1 + xi) ^ 2 / \<bar>b - a\<bar>"
    by (rule newton_ratio [OF m assms(1)])
  finally show ?thesis .
qed

lemma unshifted_ctx1: "epsmw_unshifted (ctx1 a b) = [- a, 0, 0]"
  by (simp add: epsmw_unshifted_def ctx1_def eye3 matvec_def dot_def vdiv_def vneg_def)

lemma n_d1mw_ctx1: "n_d1mw (ctx1 a b) = [b, 0, 0]"
  by (simp add: ctx1_def)


lemma loop_conv:
  assumes "0 < 1 + xi" and "\<bar>\<bar>b - a\<bar> / (1 + xi) - dx\<bar> < 1 / 10 ^ 14 * dx"
  shows "newton_loop (Suc n) (ctx1 a b) dx xi lo up = Some (Converged, xi, epsmw_at (ctx1 a b) xi)"
  using assms by (simp add: newton_loop.simps converged_at_def mag_ctx1)

section \<open>Properties of the IRC driver\<close>

lemma diag_ok_eval: "diag env1 rr_ok pes1 = Inr diag_ok_state"
  by (simp add: diag_def rr_ok_def calc_eg_def diag_ok_state_def pes1_eq concrete_defs
      set_H_def eigh_diag_def mat_sub_def eye3_Suc eye1_Suc)

text \<open>
  Claim C4.  With a direction other than \<open>forward\<close> and \<open>reverse\<close>, \<open>irun\<close> raises
  \<open>ValueError\<close> before anything else, and so does \<open>run\<close>, whatever the optimizer loop would
  do: no step is taken.  When \<open>irun\<close> returns, \<open>d1\<close> is \<open>v0ts\<close> for \<open>forward\<close> and \<open>-v0ts\<close> for
  \<open>reverse\<close>, and \<open>first\<close> is set.
\<close>

theorem irun_direction:
  "(direction \<notin> {''forward'', ''reverse''} \<longrightarrow>
      irun e rr direction s = Inl (ValueError ''direction must be one of forward or reverse!'')
      \<and> run e rr optimizer_irun direction s
          = Inl (ValueError ''direction must be one of forward or reverse!''))
   \<and> (irun e rr ''forward'' s = Inr s' \<longrightarrow>
        (\<exists>v. irc_v0ts s' = Some v \<and> irc_d1 s' = v) \<and> irc_first s')
   \<and> (irun e rr ''reverse'' s = Inr s'' \<longrightarrow>
        (\<exists>v. irc_v0ts s'' = Some v \<and> irc_d1 s'' = vneg v) \<and> irc_first s'')"
  by (auto simp add: irun_def run_def split: sum.splits option.splits)

lemma irun_fwd_eval: "irun env1 rr_ok ''forward'' irc0 = Inr irc_fwd"
  by (simp add: irun_def irun_prepare_def irc0_def irc_fwd_def diag_ok_eval)
     (simp add: diag_ok_state_def env1_def eigh_diag_def eye3 eye3_Suc mat_div_def outer_def vdiv_def vscale_def pes1_eq)

lemma irun_rev_eval: "irun env1 rr_ok ''reverse'' irc_fwd = Inr (irc_fwd\<lparr>irc_d1 := [- (1 / 2), 0, 0]\<rparr>)"
  apply (simp add: irun_def irun_prepare_def irc_fwd_def irc0_def set_x_def)
  apply (simp add: diag_ok_state_def set_H_def Ufree_def env1_def eye3 mat_mul_def dot_def eigh_diag_def eye3_Suc vneg_def Let_def)
  done

theorem irun_direction_witness:
  "''sideways'' \<notin> {''forward'', ''reverse''}
   \<and> irun env1 rr_ok ''sideways'' irc0 = Inl (ValueError ''direction must be one of forward or reverse!'')
   \<and> run env1 rr_ok (\<lambda>s. Inr (True, s)) ''sideways'' irc0
       = Inl (ValueError ''direction must be one of forward or reverse!'')
   \<and> irun env1 rr_ok ''forward'' irc0 = Inr irc_fwd
   \<and> irc_v0ts irc_fwd = Some [1 / 2, 0, 0] \<and> irc_d1 irc_fwd = [1 / 2, 0, 0]
   \<and> irun env1 rr_ok ''reverse'' irc_fwd = Inr (irc_fwd\<lparr>irc_d1 := [- (1 / 2), 0, 0]\<rparr>)"
  using irun_direction [of "''sideways''" env1 rr_ok irc0 "\<lambda>s. Inr (True, s)" irc_fwd irc_fwd]
        irun_direction [of "''sideways''" env1 rr_ok irc_fwd "\<lambda>s. Inr (True, s)" irc_fwd
                           "irc_fwd\<lparr>irc_d1 := [- (1 / 2), 0, 0]\<rparr>"]
        irun_fwd_eval irun_rev_eval
  by (simp add: irc_fwd_def)



















section \<open>Properties of the solver\<close>





lemma retained_L:
  "\<forall>l \<in> set (n_L (newton_setup e Uf Lcart pvecs sqrtm g d1)). 1 / 10 ^ 8 < l"
  by (auto simp add: newton_setup_def Let_def)

text \<open>The loop on one mode: passes that halve \<open>xi\<close>, and the two exits.\<close>

lemma setup_ctx1:
  "newton_setup env1 (eye 3) [1, 1, 1] (eye 3) [1, 1, 1] [a, 0, 0] [b, 0, 0] = ctx1 a b"
  by (simp add: setup_eye ctx1_def)

lemma diag_ok_lams: "lams diag_ok_state = Some [1, 1, 1]" "vecs diag_ok_state = Some (eye 3)"
  by (simp_all add: diag_ok_state_def)

lemma min_subnormal_small: "min_subnormal < 1 / 10 ^ 14"
  by (simp add: min_subnormal_def)

lemma nextafter_zero: "0 < y \<Longrightarrow> nextafter 0 y = min_subnormal" "y < 0 \<Longrightarrow> nextafter 0 y = - min_subnormal"
  by (simp_all add: nextafter_def)

lemma loop_step_down:
  assumes "0 < 1 + xi" and "b \<noteq> a"
    and "\<not> \<bar>\<bar>b - a\<bar> / (1 + xi) - dx\<bar> < 1 / 10 ^ 14 * dx"
    and "(1 + xi) - dx * (1 + xi) ^ 2 / \<bar>b - a\<bar> < 0"
    and "\<not> nextafter lo xi \<ge> xi"
    and "xi + ((1 + xi) - dx * (1 + xi) ^ 2 / \<bar>b - a\<bar>) \<le> lo"
  shows "newton_loop (Suc n) (ctx1 a b) dx xi lo up
         = newton_loop n (ctx1 a b) dx ((xi + lo) / 2) lo (Some xi)"
  using assms
  by (simp add: newton_loop.simps converged_at_def mag_ctx1 dxi_ctx1 new_xilower_def new_xiupper_def
      collapsed_def next_xi_def Let_def)

lemma ratio_mono:
  fixes s t :: real
  assumes "0 < s" and "s \<le> t"
  shows "s / (1 + s) \<le> t / (1 + t)"
  using assms by (simp add: field_simps)

lemma halve_once:
  assumes "0 < xi" and "1 / 10 ^ 14 \<le> xi / (1 + xi)"
  shows "newton_loop (Suc n) (ctx1 0 1) 1 xi 0 up = newton_loop n (ctx1 0 1) 1 (xi / 2) 0 (Some xi)"
proof -
  have m: "\<bar>1 / (1 + xi) - 1\<bar> = xi / (1 + xi)"
  proof -
    have "1 / (1 + xi) - 1 = - (xi / (1 + xi))" using assms(1) by (simp add: field_simps)
    with assms(1) show ?thesis by simp
  qed
  have big: "min_subnormal < xi"
  proof -
    have "xi / (1 + xi) \<le> xi" using assms(1) by (simp add: field_simps)
    with assms(2) min_subnormal_small show ?thesis by linarith
  qed
  have d: "1 + xi - 1 * (1 + xi)\<^sup>2 / \<bar>1 - 0\<bar> = - (xi * (1 + xi))"
    by (simp add: power2_eq_square algebra_simps)
  have "newton_loop (Suc n) (ctx1 0 1) 1 xi 0 up
        = newton_loop n (ctx1 0 1) 1 ((xi + 0) / 2) 0 (Some xi)"
  proof (rule loop_step_down)
    show "0 < 1 + xi" using assms(1) by simp
    show "(1::real) \<noteq> 0" by simp
    show "\<not> \<bar>\<bar>1 - 0\<bar> / (1 + xi) - 1\<bar> < 1 / 10 ^ 14 * 1"
      using m assms(2) by simp
    show "1 + xi - 1 * (1 + xi)\<^sup>2 / \<bar>1 - 0\<bar> < 0"
      unfolding d using assms(1) by simp
    show "\<not> xi \<le> nextafter 0 xi"
      using big assms(1) by (simp add: nextafter_zero)
    show "xi + (1 + xi - 1 * (1 + xi)\<^sup>2 / \<bar>1 - 0\<bar>) \<le> 0"
      unfolding d using assms(1) by (simp add: algebra_simps)
  qed
  then show ?thesis by simp
qed

lemma halve_many:
  assumes "0 < y" and "1 / 10 ^ 14 \<le> 2 * y / (1 + 2 * y)"
  shows "newton_loop (k + n) (ctx1 0 1) 1 (y * 2 ^ k) 0 up
         = newton_loop n (ctx1 0 1) 1 y 0 (if k = 0 then up else Some (2 * y))"
proof (induction k arbitrary: up)
  case 0
  show ?case by simp
next
  case (Suc k)
  have p: "0 < y * 2 ^ Suc k" using assms(1) by simp
  have y2: "0 < 2 * y" using assms(1) by simp
  have le: "2 * y \<le> y * 2 ^ Suc k"
  proof -
    have "(1::real) \<le> 2 ^ k" by simp
    with assms(1) have "y * 1 \<le> y * 2 ^ k" by (intro mult_left_mono) simp_all
    then show ?thesis by simp
  qed
  have q: "1 / 10 ^ 14 \<le> y * 2 ^ Suc k / (1 + y * 2 ^ Suc k)"
    by (rule order_trans [OF assms(2) ratio_mono [OF y2 le]])
  have "newton_loop (Suc k + n) (ctx1 0 1) 1 (y * 2 ^ Suc k) 0 up
        = newton_loop (k + n) (ctx1 0 1) 1 (y * 2 ^ Suc k / 2) 0 (Some (y * 2 ^ Suc k))"
    using halve_once [OF p q, of "k + n" up] by simp
  also have "y * 2 ^ Suc k / 2 = y * 2 ^ k" by simp
  also have "newton_loop (k + n) (ctx1 0 1) 1 (y * 2 ^ k) 0 (Some (y * 2 ^ Suc k))
        = newton_loop n (ctx1 0 1) 1 y 0 (if k = 0 then Some (y * 2 ^ Suc k) else Some (2 * y))"
    by (rule Suc.IH)
  also have "(if k = 0 then Some (y * 2 ^ Suc k) else Some (2 * y)) = Some (2 * y)"
    by simp
  finally show ?case by simp
qed

lemma loop_boundary:
  "newton_loop 100 (ctx1 0 1) 1 1 0 None
   = Some (Converged, 1 / 2 ^ 47, epsmw_at (ctx1 0 1) (1 / 2 ^ 47))"
proof -
  have "newton_loop (47 + 53) (ctx1 0 1) 1 (1 / 2 ^ 47 * 2 ^ 47) 0 None
        = newton_loop 53 (ctx1 0 1) 1 (1 / 2 ^ 47) 0 (if (47::nat) = 0 then None else Some (2 * (1 / 2 ^ 47)))"
    by (rule halve_many) simp_all
  moreover have "newton_loop (Suc 52) (ctx1 0 1) 1 (1 / 2 ^ 47) 0 (Some (2 * (1 / 2 ^ 47)))
        = Some (Converged, 1 / 2 ^ 47, epsmw_at (ctx1 0 1) (1 / 2 ^ 47))"
    by (rule loop_conv) simp_all
  ultimately show ?thesis by simp
qed



lemma rs_eval:
  "rs_newton_irc env1 diag_ok_state [1, 1, 1] [a, 0, 0] [b, 0, 0] dx xi =
     (if \<bar>b - a\<bar> < dx then Inr ([- a, 0, 0], xi, False)
      else (case newton_loop 100 (ctx1 a b) dx xi 0 None of
              None \<Rightarrow> Inl (RuntimeError ''IRC Newton step failed!'')
            | Some (ex, xi', epsmw') \<Rightarrow> Inr (vdiv epsmw' [1, 1, 1], xi', True)))"
  by (simp add: rs_newton_irc_def diag_ok_lams Ufree_env1 setup_ctx1 Let_def unshifted_ctx1
      n_d1mw_ctx1 vadd_def norm3 vdiv_def)





text \<open>
  Claim C1, as it is stated, fails where the norm of \<open>d1 + eps\<close> is equal to \<open>dx\<close>: the test
  of line 36 is \<open>d2mw_mag < dx\<close>.  Here the Hessian is the identity, the masses are 1,
  \<open>g = 0\<close>, \<open>d1 = (1, 0, 0)\<close> and \<open>dx = 1\<close>, so that the unshifted step is \<open>0\<close> and the norm of
  \<open>d1 + eps\<close> is \<open>1 = dx\<close>.  The loop is entered; it halves \<open>xi = 1\<close> until the criterion of
  line 48 holds and returns another step, another \<open>xi\<close> and \<open>bound_clip = True\<close>.
\<close>

theorem rs_newton_boundary_counterexample:
  "linalg_norm (vadd (n_d1mw (ctx1 0 1)) (epsmw_unshifted (ctx1 0 1))) = 1
   \<and> newton_setup env1 (Ufree env1 diag_ok_state) [1, 1, 1] (eye 3) [1, 1, 1] [0, 0, 0] [1, 0, 0]
       = ctx1 0 1
   \<and> rs_newton_irc env1 diag_ok_state [1, 1, 1] [0, 0, 0] [1, 0, 0] 1 1
       = Inr ([- (1 / (2 ^ 47 + 1)), 0, 0], 1 / 2 ^ 47, True)"
  by (simp add: rs_eval loop_boundary epsmw_ctx1 vdiv_def unshifted_ctx1 n_d1mw_ctx1 vadd_def norm3
      Ufree_env1 setup_ctx1)

text \<open>
  Claim C1, amended.  The eigenvalues kept by \<open>rs_newton_irc\<close> are above \<open>1e-8\<close>, and the
  unshifted step, divided by \<open>sqrtm\<close>, is returned with \<open>xi\<close> as it was given and
  \<open>bound_clip = False\<close> when the norm of \<open>d1mw + epsmw\<close> is below \<open>dx\<close>; when it is not below
  \<open>dx\<close>, nothing is returned with \<open>bound_clip = False\<close>.
\<close>

theorem rs_newton_unshifted_iff:
  assumes "lams p = Some Lcart" and "vecs p = Some pvecs"
    and "c = newton_setup e (Ufree e p) Lcart pvecs sqrtm g d1"
  shows "(\<forall>l \<in> set (n_L c). 1 / 10 ^ 8 < l)
    \<and> (linalg_norm (vadd (n_d1mw c) (epsmw_unshifted c)) < dx \<longrightarrow>
         rs_newton_irc e p sqrtm g d1 dx xi = Inr (vdiv (epsmw_unshifted c) sqrtm, xi, False))
    \<and> (\<not> linalg_norm (vadd (n_d1mw c) (epsmw_unshifted c)) < dx \<longrightarrow>
         (\<forall>eps xi'. rs_newton_irc e p sqrtm g d1 dx xi \<noteq> Inr (eps, xi', False)))"
  using assms retained_L [of e "Ufree e p" Lcart pvecs sqrtm g d1]
  by (auto simp add: rs_newton_irc_def Let_def split: option.splits prod.splits)

theorem rs_newton_unshifted_iff_witness:
  "lams diag_ok_state = Some [1, 1, 1] \<and> vecs diag_ok_state = Some (eye 3)
   \<and> ctx1 (1 / 4) (1 / 2)
       = newton_setup env1 (Ufree env1 diag_ok_state) [1, 1, 1] (eye 3) [1, 1, 1] [1 / 4, 0, 0] [1 / 2, 0, 0]
   \<and> linalg_norm (vadd (n_d1mw (ctx1 (1 / 4) (1 / 2))) (epsmw_unshifted (ctx1 (1 / 4) (1 / 2)))) < 1
   \<and> rs_newton_irc env1 diag_ok_state [1, 1, 1] [1 / 4, 0, 0] [1 / 2, 0, 0] 1 1
       = Inr ([- (1 / 4), 0, 0], 1, False)
   \<and> \<not> linalg_norm (vadd (n_d1mw (ctx1 0 1)) (epsmw_unshifted (ctx1 0 1))) < 1
   \<and> rs_newton_irc env1 diag_ok_state [1, 1, 1] [0, 0, 0] [1, 0, 0] 1 1 \<noteq> Inr ([0, 0, 0], 1, False)
   \<and> n_L (ctx1 0 1) = [1, 1, 1] \<and> list_all (\<lambda>l. 1 / 10 ^ 8 < l) (n_L (ctx1 0 1))"
  using rs_newton_unshifted_iff [of diag_ok_state "[1, 1, 1]" "eye 3" "ctx1 (1 / 4) (1 / 2)" env1
          "[1, 1, 1]" "[1 / 4, 0, 0]" "[1 / 2, 0, 0]" 1 1]
        rs_newton_unshifted_iff [of diag_ok_state "[1, 1, 1]" "eye 3" "ctx1 0 1" env1
          "[1, 1, 1]" "[0, 0, 0]" "[1, 0, 0]" 1 1]
  by (simp add: diag_ok_lams Ufree_env1 setup_ctx1 unshifted_ctx1 n_d1mw_ctx1 vadd_def norm3 vdiv_def)
     (simp add: ctx1_def)







section \<open>Properties of the retraction\<close>

text \<open>
  The \<open>while\<close> loop ends when every \<open>step()\<close> evaluates the right-hand side at least once:
  after some \<open>k\<close> steps, all of them taken in the status \<open>running\<close>, either \<open>nfev\<close> is over
  200 or the status is no longer \<open>running\<close>.
\<close>

lemma ode_loop_steps:
  assumes inc: "\<And>ode. ode_nfev E ode < ode_nfev E (ode_step E ode)"
  shows "\<exists>k. (\<forall>j<k. ode_status E ((ode_step E ^^ j) ode) = Running
                   \<and> (0 < j \<longrightarrow> ode_nfev E ((ode_step E ^^ j) ode) \<le> 200))
            \<and> ((0 < k \<and> 200 < ode_nfev E ((ode_step E ^^ k) ode))
                 \<or> ode_status E ((ode_step E ^^ k) ode) \<noteq> Running)
            \<and> ode_loop E ode =
                Some (if 0 < k \<and> 200 < ode_nfev E ((ode_step E ^^ k) ode)
                      then Inl (RuntimeError ''Geometry update ODE is taking too long to converge!'')
                      else Inr ((ode_step E ^^ k) ode))"
proof (induction "201 - ode_nfev E ode" arbitrary: ode rule: less_induct)
  case less
  show ?case
  proof (cases "ode_status E ode = Running")
    case False
    then have "ode_loop E ode = Some (Inr ode)"
      by (subst ode_loop.simps) simp
    with False show ?thesis
      by (intro exI [of _ 0]) simp
  next
    case run: True
    show ?thesis
    proof (cases "200 < ode_nfev E (ode_step E ode)")
      case True
      with run have "ode_loop E ode
          = Some (Inl (RuntimeError ''Geometry update ODE is taking too long to converge!''))"
        by (subst ode_loop.simps) simp
      with run True show ?thesis
        by (intro exI [of _ 1]) simp
    next
      case False
      with run have unf: "ode_loop E ode = ode_loop E (ode_step E ode)"
        by (subst ode_loop.simps) simp
      have "201 - ode_nfev E (ode_step E ode) < 201 - ode_nfev E ode"
        using inc [of ode] False by simp
      from less [OF this] obtain k where
        k1: "\<forall>j<k. ode_status E ((ode_step E ^^ j) (ode_step E ode)) = Running
                   \<and> (0 < j \<longrightarrow> ode_nfev E ((ode_step E ^^ j) (ode_step E ode)) \<le> 200)"
        and k2: "(0 < k \<and> 200 < ode_nfev E ((ode_step E ^^ k) (ode_step E ode)))
                 \<or> ode_status E ((ode_step E ^^ k) (ode_step E ode)) \<noteq> Running"
        and k3: "ode_loop E (ode_step E ode) =
                Some (if 0 < k \<and> 200 < ode_nfev E ((ode_step E ^^ k) (ode_step E ode))
                      then Inl (RuntimeError ''Geometry update ODE is taking too long to converge!'')
                      else Inr ((ode_step E ^^ k) (ode_step E ode)))"
        by blast
      have sh: "(ode_step E ^^ j) (ode_step E ode) = (ode_step E ^^ Suc j) ode" for j
        by (simp add: funpow_swap1)
      have a: "\<forall>j<Suc k. ode_status E ((ode_step E ^^ j) ode) = Running
                   \<and> (0 < j \<longrightarrow> ode_nfev E ((ode_step E ^^ j) ode) \<le> 200)"
      proof (intro allI impI)
        fix j assume jk: "j < Suc k"
        show "ode_status E ((ode_step E ^^ j) ode) = Running
                   \<and> (0 < j \<longrightarrow> ode_nfev E ((ode_step E ^^ j) ode) \<le> 200)"
        proof (cases j)
          case 0
          with run show ?thesis by simp
        next
          case (Suc i)
          with jk have ik: "i < k" by simp
          from k1 ik have s: "ode_status E ((ode_step E ^^ i) (ode_step E ode)) = Running"
            and n: "0 < i \<longrightarrow> ode_nfev E ((ode_step E ^^ i) (ode_step E ode)) \<le> 200"
            by blast+
          have "ode_nfev E ((ode_step E ^^ i) (ode_step E ode)) \<le> 200"
            using n False by (cases i) simp_all
          with s show ?thesis unfolding Suc sh [symmetric] by simp
        qed
      qed
      have b: "(0 < Suc k \<and> 200 < ode_nfev E ((ode_step E ^^ Suc k) ode))
                 \<or> ode_status E ((ode_step E ^^ Suc k) ode) \<noteq> Running"
        using k2 False unfolding sh [symmetric] by (cases k) auto
      have c: "ode_loop E ode =
                Some (if 0 < Suc k \<and> 200 < ode_nfev E ((ode_step E ^^ Suc k) ode)
                      then Inl (RuntimeError ''Geometry update ODE is taking too long to converge!'')
                      else Inr ((ode_step E ^^ Suc k) ode))"
        using k3 False unfolding unf sh [symmetric] by (cases k) auto
      from a b c show ?thesis by blast
    qed
  qed
qed

text \<open>
  Claim C9.  For an integrator that starts in the status \<open>running\<close> and whose \<open>nfev\<close> grows
  with every \<open>step()\<close>, the assignment to \<open>IntPES.x\<close> ends, with the integrator \<open>fin\<close> as
  some number of steps left it.  It raises exactly when \<open>nfev\<close> of \<open>fin\<close> is over 200 or its
  status is \<open>failed\<close>; otherwise the integrator has finished and the positions are the
  first \<open>nx\<close> entries of its \<open>y\<close>.
\<close>

theorem IntPES_set_x_raises_iff:
  assumes inc: "\<And>ode. ode_nfev E ode < ode_nfev E (ode_step E ode)"
    and init: "\<And>y0. ode_status E (LSODA E y0) = Running"
  shows "\<exists>k fin. fin = (ode_step E ^^ k) (LSODA E (y0_of E target pos))
           \<and> (\<forall>j<k. ode_status E ((ode_step E ^^ j) (LSODA E (y0_of E target pos))) = Running)
           \<and> (200 < ode_nfev E fin \<or> ode_status E fin \<noteq> Running)
           \<and> (\<exists>r. IntPES_set_x E target pos = Some r
                  \<and> (isl r \<longleftrightarrow> 200 < ode_nfev E fin \<or> ode_status E fin = Failed)
                  \<and> (\<not> isl r \<longrightarrow>
                        ode_status E fin = Finished \<and> r = Inr (take (length pos) (ode_y E fin))))"
proof -
  let ?o = "LSODA E (y0_of E target pos)"
  from ode_loop_steps [OF inc, of ?o] obtain k where
    k1: "\<forall>j<k. ode_status E ((ode_step E ^^ j) ?o) = Running
                   \<and> (0 < j \<longrightarrow> ode_nfev E ((ode_step E ^^ j) ?o) \<le> 200)"
    and k2: "(0 < k \<and> 200 < ode_nfev E ((ode_step E ^^ k) ?o))
                 \<or> ode_status E ((ode_step E ^^ k) ?o) \<noteq> Running"
    and k3: "ode_loop E ?o =
                Some (if 0 < k \<and> 200 < ode_nfev E ((ode_step E ^^ k) ?o)
                      then Inl (RuntimeError ''Geometry update ODE is taking too long to converge!'')
                      else Inr ((ode_step E ^^ k) ?o))"
    by blast
  have kpos: "0 < k"
    using k2 init [of "y0_of E target pos"] by (cases k) auto
  have "IntPES_set_x E target pos =
          (case ode_loop E ?o of
             None \<Rightarrow> None
           | Some (Inl err) \<Rightarrow> Some (Inl err)
           | Some (Inr ode) \<Rightarrow>
               (if ode_status E ode = Failed
                then Some (Inl (RuntimeError ''Geometry update ODE failed to converge!''))
                else Some (Inr (take (length pos) (ode_y E ode)))))"
    by (simp add: IntPES_set_x_def y0_of_def Let_def)
  with k3 kpos have
    "\<exists>r. IntPES_set_x E target pos = Some r
        \<and> (isl r \<longleftrightarrow> 200 < ode_nfev E ((ode_step E ^^ k) ?o) \<or> ode_status E ((ode_step E ^^ k) ?o) = Failed)
        \<and> (\<not> isl r \<longrightarrow> ode_status E ((ode_step E ^^ k) ?o) = Finished
               \<and> r = Inr (take (length pos) (ode_y E ((ode_step E ^^ k) ?o))))"
    using k2 by (cases "ode_status E ((ode_step E ^^ k) ?o)") auto
  with k1 k2 kpos show ?thesis by blast
qed

lemma ode_env_sel:
  "int_q (ode_env p n f) = (\<lambda>x. x)" "int_q_wrap (ode_env p n f) = (\<lambda>d. d)"
  "int_Binv (ode_env p n f) = (\<lambda>x. eye 3)" "LSODA (ode_env p n f) = (\<lambda>y0. (Running, 0, y0))"
  "ode_step (ode_env p n f) (s, m, y)
     = (if n * p \<le> m + p then f else Running, m + p, take 3 y @ drop 3 y)"
  "ode_status (ode_env p n f) (s, m, y) = s" "ode_nfev (ode_env p n f) (s, m, y) = m"
  "ode_y (ode_env p n f) (s, m, y) = y"
  by (simp_all add: ode_env_def)

lemma set_x_ok:
  "IntPES_set_x (ode_env 60 2 Finished) [2, 0, 0] [1, 0, 0] = Some (Inr [1, 0, 0])"
  by (simp add: IntPES_set_x_def ode_env_sel ode_loop.simps Let_def eye3 matvec_def dot_def vsub_def)

lemma set_x_long:
  "IntPES_set_x (ode_env 150 3 Finished) [2, 0, 0] [1, 0, 0]
   = Some (Inl (RuntimeError ''Geometry update ODE is taking too long to converge!''))"
  by (simp add: IntPES_set_x_def ode_env_sel ode_loop.simps Let_def eye3 matvec_def dot_def vsub_def)

lemma set_x_failed:
  "IntPES_set_x (ode_env 60 2 Failed) [2, 0, 0] [1, 0, 0]
   = Some (Inl (RuntimeError ''Geometry update ODE failed to converge!''))"
  by (simp add: IntPES_set_x_def ode_env_sel ode_loop.simps Let_def eye3 matvec_def dot_def vsub_def)

theorem IntPES_set_x_raises_iff_witness:
  "(\<forall>ode. ode_nfev (ode_env 60 2 Finished) ode
            < ode_nfev (ode_env 60 2 Finished) (ode_step (ode_env 60 2 Finished) ode))
   \<and> (\<forall>y0. ode_status (ode_env 60 2 Finished) (LSODA (ode_env 60 2 Finished) y0) = Running)
   \<and> IntPES_set_x (ode_env 60 2 Finished) [2, 0, 0] [1, 0, 0] = Some (Inr [1, 0, 0])
   \<and> IntPES_set_x (ode_env 150 3 Finished) [2, 0, 0] [1, 0, 0]
       = Some (Inl (RuntimeError ''Geometry update ODE is taking too long to converge!''))
   \<and> IntPES_set_x (ode_env 60 2 Failed) [2, 0, 0] [1, 0, 0]
       = Some (Inl (RuntimeError ''Geometry update ODE failed to converge!''))"
proof -
  have inc: "ode_nfev (ode_env p n f) ode < ode_nfev (ode_env p n f) (ode_step (ode_env p n f) ode)"
    if "0 < p" for p n f ode
    using that by (cases ode) (simp add: ode_env_sel)
  have init: "ode_status (ode_env p n f) (LSODA (ode_env p n f) y0) = Running" for p n f y0
    by (simp add: ode_env_sel)
  from IntPES_set_x_raises_iff [of "ode_env 60 2 Finished" "[2, 0, 0]" "[1, 0, 0]"] inc init
  have "\<exists>r. IntPES_set_x (ode_env 60 2 Finished) [2, 0, 0] [1, 0, 0] = Some r"
    by (meson zero_less_numeral)
  with inc init set_x_ok set_x_long set_x_failed show ?thesis
    by simp
qed

end
